theory Spec2Isabelle
  imports Complex_Main "HOL-Library.Sublist"
begin

section \<open>JavaScript values used by \<open>src/core.ts\<close>\<close>

text \<open>
  Strings are lists of characters. The characters \<open>'\<close> and \<open>\\<close> get names, since the
  quoting code is about them.
\<close>

definition squote :: char where
  "squote = CHR 0x27"

definition backslash :: char where
  "backslash = CHR 0x5C"

text \<open>
  \<open>String.prototype.toLowerCase\<close>. The table covers the ASCII letters; every other
  character is left as it is. (The Unicode case mapping also changes letters outside ASCII.
  The only one it maps to an ASCII letter is the Kelvin sign, to \<open>k\<close>, and none of the
  lower-case strings the code compares with contains \<open>k\<close>, so the tests of the code are
  decided by this table.)
\<close>

definition toLowerCase_char :: "char \<Rightarrow> char" where
  "toLowerCase_char c =
     (case map_of (zip ''ABCDEFGHIJKLMNOPQRSTUVWXYZ'' ''abcdefghijklmnopqrstuvwxyz'') c of
        Some l \<Rightarrow> l
      | None \<Rightarrow> c)"

definition toLowerCase :: "string \<Rightarrow> string" where
  "toLowerCase s = map toLowerCase_char s"

text \<open>\<open>String.prototype.includes\<close>: the argument occurs as a contiguous part.\<close>

definition includes_str :: "string \<Rightarrow> string \<Rightarrow> bool" where
  "includes_str s part = sublist part s"

text \<open>
  A parameter of type \<open>string | null | undefined\<close>, and the truthiness test JavaScript
  applies to it (\<open>!value\<close>, \<open>if (value)\<close>): \<open>undefined\<close>, \<open>null\<close> and the empty string
  are falsy.
\<close>

datatype nullable_string = Undefined | Null | Str string

fun truthy :: "nullable_string \<Rightarrow> bool" where
  "truthy Undefined = False"
| "truthy Null = False"
| "truthy (Str s) = (s \<noteq> [])"

text \<open>
  A value of type \<open>string | undefined\<close> is a \<open>string option\<close>; \<open>x ?? undefined\<close> passes
  it on unchanged.
\<close>

fun of_optional :: "string option \<Rightarrow> nullable_string" where
  "of_optional None = Undefined"
| "of_optional (Some s) = Str s"

text \<open>A value of that type inside a template literal (\<open>`${x}`\<close>).\<close>

fun template :: "string option \<Rightarrow> string" where
  "template None = ''undefined''"
| "template (Some s) = s"

text \<open>
  The values \<open>JSON.parse\<close> produces. The payload of a number is never inspected by the
  code. An object is given by the list of its own properties, read with \<open>map_of\<close>.
\<close>

datatype json =
    JNull
  | JBoolean bool
  | JNumber real
  | JString string
  | JArray "json list"
  | JObject "(string \<times> json) list"

text \<open>
  Reading the property \<open>k\<close> of a parsed document (\<open>parsed.k\<close>). On \<open>null\<close> the read
  throws a TypeError (the message is V8's); on an object it yields the own property or
  \<open>undefined\<close>; on a number, boolean, string or array it yields \<open>undefined\<close> for the two
  names the code reads, \<open>defaultTool\<close> and \<open>defaultFlags\<close>, which are no property of any
  prototype. \<open>Inl\<close> carries the message of the error thrown, \<open>None\<close> is \<open>undefined\<close>.
\<close>

fun getProperty :: "json \<Rightarrow> string \<Rightarrow> string + json option" where
  "getProperty JNull k =
     Inl (''Cannot read properties of null (reading '' @ [squote] @ k @ [squote] @ '')'')"
| "getProperty (JObject props) k = Inr (map_of props k)"
| "getProperty _ k = Inr None"

text \<open>
  The property names of \<open>Object.prototype\<close>. The operator \<open>in\<close> follows the prototype
  chain, and the prototype of an object literal is \<open>Object.prototype\<close>.
\<close>

definition Object_prototype_properties :: "string list" where
  "Object_prototype_properties =
     [''constructor'', ''__defineGetter__'', ''__defineSetter__'', ''hasOwnProperty'',
      ''__lookupGetter__'', ''__lookupSetter__'', ''isPrototypeOf'',
      ''propertyIsEnumerable'', ''toString'', ''valueOf'', ''__proto__'',
      ''toLocaleString'']"

text \<open>\<open>key in obj\<close> for an object literal with the given own property names.\<close>

definition js_in :: "string \<Rightarrow> string list \<Rightarrow> bool" where
  "js_in key own = (key \<in> set own \<or> key \<in> set Object_prototype_properties)"

section \<open>The tool catalog\<close>

definition CONFIG_FILENAME :: string where
  "CONFIG_FILENAME = ''.ai-switch.json''"

record Installer =
  label :: string
  cmd :: string
  platforms :: "string list option"

record ToolDefinition =
  bin :: string
  pretty :: string
  installers :: "Installer list"
  yoloFlags :: "string list option"

definition codex :: ToolDefinition where
  "codex =
     \<lparr>bin = ''codex'', pretty = ''OpenAI Codex CLI'',
      installers =
        [\<lparr>label = ''npm'', cmd = ''npm install -g @openai/codex'', platforms = None\<rparr>,
         \<lparr>label = ''brew'', cmd = ''brew install codex'', platforms = Some [''darwin'']\<rparr>],
      yoloFlags = Some [''--yolo'', ''--dangerously-bypass-approvals-and-sandbox'']\<rparr>"

definition claude :: ToolDefinition where
  "claude =
     \<lparr>bin = ''claude'', pretty = ''Anthropic Claude Code'',
      installers =
        [\<lparr>label = ''npm'', cmd = ''npm install -g @anthropic-ai/claude-code'',
          platforms = None\<rparr>,
         \<lparr>label = ''brew'', cmd = ''brew install --cask claude-code'',
          platforms = Some [''darwin'']\<rparr>],
      yoloFlags = Some [''--dangerously-skip-permissions'']\<rparr>"

definition gemini :: ToolDefinition where
  "gemini =
     \<lparr>bin = ''gemini'', pretty = ''Google Gemini CLI'',
      installers =
        [\<lparr>label = ''npm'', cmd = ''npm install -g @google/gemini-cli'', platforms = None\<rparr>,
         \<lparr>label = ''brew'', cmd = ''brew install gemini-cli'', platforms = Some [''darwin'']\<rparr>],
      yoloFlags = Some [''--yolomode'', ''--yolo'']\<rparr>"

definition TOOLS :: "(string \<times> ToolDefinition) list" where
  "TOOLS = [(''codex'', codex), (''claude'', claude), (''gemini'', gemini)]"

text \<open>The type \<open>ToolKey\<close>: the own keys of \<open>TOOLS\<close>.\<close>

definition ToolKey :: "string list" where
  "ToolKey = map fst TOOLS"

record AiSwitchConfig =
  defaultTool :: "string option"
  defaultFlags :: "string list option"

text \<open>The object \<open>{}\<close>: neither key is there.\<close>

definition empty_config :: AiSwitchConfig where
  "empty_config = \<lparr>defaultTool = None, defaultFlags = None\<rparr>"

text \<open>
  A \<open>LoggerLike\<close> is an object of the caller's with a method \<open>warn\<close>. A call of it
  returns or throws, and which of the two may depend on the calls made before. The logger
  is modelled by the messages it has received, oldest first, and by \<open>fails\<close>: for the
  messages received before a call and the message of the call, the message of the error
  the call throws, or \<open>None\<close> when it returns. \<open>warn\<close> gives the outcome of one call and
  the logger after it; \<open>logger?.warn(m)\<close> does nothing when no logger was passed.
\<close>

record LoggerLike =
  received :: "string list"
  fails :: "string list \<Rightarrow> string \<Rightarrow> string option"

definition warn :: "LoggerLike \<Rightarrow> string \<Rightarrow> string option \<times> LoggerLike" where
  "warn logger message =
     (fails logger (received logger) message,
      logger\<lparr>received := received logger @ [message]\<rparr>)"

fun opt_warn :: "LoggerLike option \<Rightarrow> string \<Rightarrow> string option \<times> LoggerLike option" where
  "opt_warn None message = (None, None)"
| "opt_warn (Some logger) message =
     (fst (warn logger message), Some (snd (warn logger message)))"

text \<open>
  A logger that records its messages and always returns, as the mock function of the
  tests does.
\<close>

definition sink :: "string list \<Rightarrow> LoggerLike" where
  "sink messages = \<lparr>received = messages, fails = (\<lambda>history message. None)\<rparr>"

record choice =
  name :: string
  value' :: string

definition CANCEL_CHOICE :: choice where
  "CANCEL_CHOICE = \<lparr>name = ''Cancel'', value' = ''''\<rparr>"

section \<open>The host\<close>

text \<open>
  What the code asks of Node.js: \<open>path.join\<close>, \<open>fs.existsSync\<close>, \<open>fs.readFileSync\<close>
  (with \<open>Inl\<close> the message of the error it throws), \<open>JSON.parse\<close> (likewise),
  \<open>process.platform\<close> and \<open>process.env\<close>.
\<close>

record host =
  path_join :: "string \<Rightarrow> string \<Rightarrow> string"
  existsSync :: "string \<Rightarrow> bool"
  readFileSync :: "string \<Rightarrow> string + string"
  JSON_parse :: "string \<Rightarrow> string + json"
  process_platform :: string
  process_env :: "string \<rightharpoonup> string"

section \<open>The operations of \<open>src/core.ts\<close>\<close>

definition normalizeToolKey :: "nullable_string \<Rightarrow> string option" where
  "normalizeToolKey v =
     (if \<not> truthy v then None
      else case v of
          Str s \<Rightarrow>
            (let key = toLowerCase s in
               if js_in key (map fst TOOLS) then Some key else None)
        | _ \<Rightarrow> None)"

definition isWSL :: "host \<Rightarrow> bool" where
  "isWSL h =
     (if process_platform h \<noteq> ''linux'' then False
      else if process_env h ''WSL_DISTRO_NAME'' \<noteq> None then True
      else case readFileSync h ''/proc/version'' of
          Inr release \<Rightarrow> includes_str (toLowerCase release) ''microsoft''
        | Inl _ \<Rightarrow> False)"

definition isInstallerSupported :: "host \<Rightarrow> Installer \<Rightarrow> string \<Rightarrow> bool" where
  "isInstallerSupported h installer platform =
     (case platforms installer of
        None \<Rightarrow> True
      | Some ps \<Rightarrow>
          if length ps = 0 then True
          else if isWSL h then (''wsl'' \<in> set ps \<or> ''linux'' \<in> set ps)
          else platform \<in> set ps)"

definition getInstallerChoices :: "host \<Rightarrow> ToolDefinition \<Rightarrow> string \<Rightarrow> choice list" where
  "getInstallerChoices h tool platform =
     (let choices =
        map (\<lambda>installer.
               \<lparr>name = label installer @ '': '' @ cmd installer, value' = cmd installer\<rparr>)
          (filter (\<lambda>installer. isInstallerSupported h installer platform) (installers tool))
      in choices @ [CANCEL_CHOICE])"

text \<open>\<open>const [first] = tool.yoloFlags ?? []\<close>: the first element, or \<open>undefined\<close>.\<close>

definition selectYoloFlag :: "ToolDefinition \<Rightarrow> string option" where
  "selectYoloFlag tool =
     (case (case yoloFlags tool of None \<Rightarrow> [] | Some fs \<Rightarrow> fs) of
        [] \<Rightarrow> None
      | first # _ \<Rightarrow> Some first)"

text \<open>\<open>Array.prototype.indexOf\<close>: the first index holding the element, or \<open>-1\<close>.\<close>

fun indexOf :: "'a list \<Rightarrow> 'a \<Rightarrow> int" where
  "indexOf [] x = -1"
| "indexOf (y # ys) x =
     (if y = x then 0 else let i = indexOf ys x in if i < 0 then -1 else i + 1)"

text \<open>
  \<open>Array.prototype.slice\<close> with one argument: a negative start counts from the end, and
  a start beyond the end gives the empty array.
\<close>

definition slice :: "'a list \<Rightarrow> int \<Rightarrow> 'a list" where
  "slice xs start =
     (let n = int (length xs);
          k = (if start < 0 then max (n + start) 0 else min start n)
      in drop (nat k) xs)"

definition passthroughArgs :: "string list \<Rightarrow> string list" where
  "passthroughArgs argv =
     (let idx = indexOf argv ''--'' in if idx \<ge> 0 then slice argv (idx + 1) else [])"

text \<open>
  \<open>value\<close> has type \<open>unknown\<close> and may be \<open>undefined\<close> (\<open>None\<close>). Only an array all of
  whose items have type string is copied.
\<close>

fun is_string :: "json \<Rightarrow> bool" where
  "is_string (JString s) = True"
| "is_string _ = False"

fun string_of :: "json \<Rightarrow> string" where
  "string_of (JString s) = s"
| "string_of _ = []"

fun ensureStringArray :: "json option \<Rightarrow> string list option" where
  "ensureStringArray (Some (JArray items)) =
     (if list_all is_string items then Some (map string_of items) else None)"
| "ensureStringArray _ = None"

text \<open>
  The body of the \<open>try\<close> block of \<open>loadConfig\<close>. \<open>Inl\<close> is the message of an error
  thrown inside it, with the logger as it is then: the error is thrown by
  \<open>readFileSync\<close>, by \<open>JSON.parse\<close>, by reading a property of \<open>null\<close>, or by a call
  of \<open>logger.warn\<close>.
\<close>

definition loadConfig_try ::
  "host \<Rightarrow> string \<Rightarrow> LoggerLike option
     \<Rightarrow> (string \<times> LoggerLike option) + (AiSwitchConfig \<times> LoggerLike option)"
where
  "loadConfig_try h configPath logger =
     (case readFileSync h configPath of
        Inl message \<Rightarrow> Inl (message, logger)
      | Inr raw \<Rightarrow>
     (case JSON_parse h raw of
        Inl message \<Rightarrow> Inl (message, logger)
      | Inr parsed \<Rightarrow>
     (case getProperty parsed ''defaultTool'' of
        Inl message \<Rightarrow> Inl (message, logger)
      | Inr tool_field \<Rightarrow>
     (let result = empty_config;
          maybeTool = (case tool_field of Some (JString s) \<Rightarrow> Some s | _ \<Rightarrow> None);
          normalizedTool = normalizeToolKey (of_optional maybeTool);
          (thrown, result, logger) =
            (if truthy (of_optional normalizedTool)
             then (None, result\<lparr>defaultTool := normalizedTool\<rparr>, logger)
             else if truthy (of_optional maybeTool)
             then (let called =
                         opt_warn logger (''Ignoring unknown defaultTool: '' @ template maybeTool)
                   in (fst called, result, snd called))
             else (None, result, logger))
      in
     (case thrown of
        Some message \<Rightarrow> Inl (message, logger)
      | None \<Rightarrow>
     (case getProperty parsed ''defaultFlags'' of
        Inl message \<Rightarrow> Inl (message, logger)
      | Inr flags_field \<Rightarrow>
     (let flags = ensureStringArray flags_field in
        if flags \<noteq> None then Inr (result\<lparr>defaultFlags := flags\<rparr>, logger)
        else if flags_field \<noteq> None
        then (let called =
                    opt_warn logger
                      ''Ignoring defaultFlags because it is not an array of strings.''
              in case fst called of
                   Some message \<Rightarrow> Inl (message, snd called)
                 | None \<Rightarrow> Inr (result, snd called))
        else Inr (result, logger))))))))"

text \<open>
  \<open>loadConfig\<close>, with the \<open>catch\<close> clause, which calls \<open>logger?.warn\<close> once more.
  The result is the returned config together with the logger after the call; \<open>Inl\<close> is
  the message of an error raised to the caller, the one that call throws.
\<close>

definition loadConfig ::
  "host \<Rightarrow> string \<Rightarrow> LoggerLike option \<Rightarrow> string + (AiSwitchConfig \<times> LoggerLike option)"
where
  "loadConfig h cwd logger =
     (let configPath = path_join h cwd CONFIG_FILENAME in
      if \<not> existsSync h configPath then Inr (empty_config, logger)
      else case loadConfig_try h configPath logger of
          Inr r \<Rightarrow> Inr r
        | Inl (message, logger) \<Rightarrow>
            (let called =
                   opt_warn logger (''Failed to load '' @ CONFIG_FILENAME @ '': '' @ message)
             in case fst called of
                  Some thrown \<Rightarrow> Inl thrown
                | None \<Rightarrow> Inr (empty_config, snd called)))"

text \<open>
  \<open>SAFE_CHARS\<close> is \<open>/^[A-Za-z0-9._@%+=:,\/-]+$/\<close>: one or more characters, all of the
  class.
\<close>

definition safe_char :: "char \<Rightarrow> bool" where
  "safe_char c =
     (c \<in> set ''ABCDEFGHIJKLMNOPQRSTUVWXYZabcdefghijklmnopqrstuvwxyz0123456789._@%+=:,/-'')"

definition SAFE_CHARS_test :: "string \<Rightarrow> bool" where
  "SAFE_CHARS_test arg = (arg \<noteq> [] \<and> list_all safe_char arg)"

text \<open>
  \<open>arg.replace(/'/g, r)\<close> for a replacement \<open>r\<close> without \<open>$\<close>: every quote becomes \<open>r\<close>.
\<close>

definition replace_quotes :: "string \<Rightarrow> string \<Rightarrow> string" where
  "replace_quotes arg r = concat (map (\<lambda>c. if c = squote then r else [c]) arg)"

text \<open>
  The replacement is written \<open>"'\''"\<close> in the source, a double-quoted JavaScript literal,
  in which the escape \<open>\'\<close> stands for the quote character alone: the literal denotes a
  string of three quotes.
\<close>

definition quoteArg :: "string \<Rightarrow> string" where
  "quoteArg arg =
     (if arg = [] then [squote, squote]
      else if SAFE_CHARS_test arg then arg
      else [squote] @ replace_quotes arg [squote, squote, squote] @ [squote])"

text \<open>\<open>Array.prototype.join\<close>.\<close>

fun join :: "string \<Rightarrow> string list \<Rightarrow> string" where
  "join sep [] = []"
| "join sep [x] = x"
| "join sep (x # y # ys) = x @ sep @ join sep (y # ys)"

definition formatShellCommand :: "string \<Rightarrow> string list \<Rightarrow> string" where
  "formatShellCommand command args = join '' '' (map quoteArg (command # args))"

section \<open>The operations as the specification words them\<close>

text \<open>
  The specification of \<open>getInstallerChoices\<close>: the installers whose platform set is
  absent, empty or contains the platform, in order, each as a labelled choice, and then
  the Cancel entry.
\<close>

definition spec_getInstallerChoices :: "ToolDefinition \<Rightarrow> string \<Rightarrow> choice list" where
  "spec_getInstallerChoices tool platform =
     map (\<lambda>i. \<lparr>name = label i @ '': '' @ cmd i, value' = cmd i\<rparr>)
       (filter (\<lambda>i. case platforms i of None \<Rightarrow> True | Some ps \<Rightarrow> ps = [] \<or> platform \<in> set ps)
          (installers tool))
     @ [CANCEL_CHOICE]"

text \<open>
  The specification of the quoting: a non-empty token of safe characters is left as it
  is; any other token is put between single quotes, each quote inside it replaced by the
  four characters quote, backslash, quote, quote.
\<close>

definition spec_quoteArg :: "string \<Rightarrow> string" where
  "spec_quoteArg arg =
     (if SAFE_CHARS_test arg then arg
      else [squote] @ replace_quotes arg [squote, backslash, squote, squote] @ [squote])"

definition spec_formatShellCommand :: "string \<Rightarrow> string list \<Rightarrow> string" where
  "spec_formatShellCommand command args = join '' '' (map spec_quoteArg (command # args))"

section \<open>Example hosts\<close>

text \<open>A macOS machine with no files.\<close>

definition mac_host :: host where
  "mac_host =
     \<lparr>path_join = (\<lambda>dir file. dir @ ''/'' @ file),
      existsSync = (\<lambda>p. False),
      readFileSync = (\<lambda>p. Inl (''ENOENT: no such file or directory, open '' @ [squote] @ p @ [squote])),
      JSON_parse = (\<lambda>t. Inl ''Unexpected end of JSON input''),
      process_platform = ''darwin'',
      process_env = Map.empty\<rparr>"

text \<open>A Linux machine, not under WSL.\<close>

definition linux_host :: host where
  "linux_host =
     mac_host\<lparr>process_platform := ''linux'',
       readFileSync := (\<lambda>p. if p = ''/proc/version'' then Inr ''Linux version 6.8.0 (gcc 13.2.0)''
                              else Inl (''ENOENT: no such file or directory, open '' @ [squote] @ p @ [squote]))\<rparr>"

text \<open>A Linux machine under WSL.\<close>

definition wsl_host :: host where
  "wsl_host =
     linux_host\<lparr>process_env := [''WSL_DISTRO_NAME'' \<mapsto> ''Ubuntu'']\<rparr>"

text \<open>
  A machine whose directory \<open>/proj\<close> holds a config file; \<open>outcome\<close> is what
  \<open>JSON.parse\<close> makes of its text.
\<close>

definition config_host :: "string + json \<Rightarrow> host" where
  "config_host outcome =
     mac_host\<lparr>existsSync := (\<lambda>p. p = ''/proj/.ai-switch.json''),
       readFileSync := (\<lambda>p. if p = ''/proj/.ai-switch.json'' then Inr ''(text of the file)''
                              else Inl (''ENOENT: no such file or directory, open '' @ [squote] @ p @ [squote])),
       JSON_parse := (\<lambda>t. if t = ''(text of the file)'' then outcome
                            else Inl ''Unexpected end of JSON input'')\<rparr>"

text \<open>A machine whose config file exists and cannot be read.\<close>

definition unreadable_host :: host where
  "unreadable_host =
     mac_host\<lparr>existsSync := (\<lambda>p. p = ''/proj/.ai-switch.json''),
       readFileSync := (\<lambda>p. Inl (''EACCES: permission denied, open '' @ [squote] @ p @ [squote]))\<rparr>"

text \<open>A logger whose \<open>warn\<close> throws at every call.\<close>

definition closed_logger :: LoggerLike where
  "closed_logger = \<lparr>received = [], fails = (\<lambda>history message. Some ''logger is closed'')\<rparr>"

text \<open>A tool with one installer for WSL alone, and one without flags or installers.\<close>

definition wsl_tool :: ToolDefinition where
  "wsl_tool =
     \<lparr>bin = ''example'', pretty = ''Example CLI'',
      installers = [\<lparr>label = ''apt'', cmd = ''apt install example'', platforms = Some [''wsl'']\<rparr>],
      yoloFlags = Some []\<rparr>"

definition bare_tool :: ToolDefinition where
  "bare_tool =
     \<lparr>bin = ''example'', pretty = ''Example CLI'', installers = [], yoloFlags = None\<rparr>"

section \<open>Tool keys\<close>

text \<open>What \<open>normalizeToolKey\<close> computes on a string.\<close>

lemma normalizeToolKey_catalog:
  "normalizeToolKey (Str s) =
     (if s \<noteq> [] \<and> (toLowerCase s \<in> set ToolKey \<or> toLowerCase s \<in> set Object_prototype_properties)
      then Some (toLowerCase s) else None)"
  by (simp add: normalizeToolKey_def js_in_def ToolKey_def Let_def)

text \<open>
  Claim C2 (\<open>normalizeToolKey\<close> returns nothing for every string whose lower-casing is
  not one of the three catalog keys): the code does not do so. It tests \<open>key in TOOLS\<close>,
  which also holds for the names \<open>TOOLS\<close> inherits from \<open>Object.prototype\<close>, so
  \<open>constructor\<close> and \<open>__PROTO__\<close> are returned as tool keys although neither is a key of
  the catalog.
\<close>

theorem normalizeToolKey_accepts_prototype_name:
  "normalizeToolKey (Str ''constructor'') = Some ''constructor''
   \<and> normalizeToolKey (Str ''__PROTO__'') = Some ''__proto__''
   \<and> ''constructor'' \<notin> set ToolKey \<and> ''__proto__'' \<notin> set ToolKey"
  by (simp add: normalizeToolKey_def toLowerCase_def toLowerCase_char_def js_in_def
      Object_prototype_properties_def ToolKey_def TOOLS_def)

text \<open>
  Claim C1 (a \<open>defaultTool\<close> present in the config returned by \<open>loadConfig\<close> is one of
  the catalog keys): the code returns \<open>constructor\<close> as the default tool when the
  file says so, through the same membership test.
\<close>

theorem loadConfig_keeps_prototype_name:
  "loadConfig (config_host (Inr (JObject [(''defaultTool'', JString ''constructor'')])))
     ''/proj'' None
   = Inr (\<lparr>defaultTool = Some ''constructor'', defaultFlags = None\<rparr>, None)
   \<and> ''constructor'' \<notin> set ToolKey"
  by (simp add: loadConfig_def loadConfig_try_def CONFIG_FILENAME_def config_host_def
      mac_host_def empty_config_def normalizeToolKey_def toLowerCase_def toLowerCase_char_def
      js_in_def Object_prototype_properties_def ToolKey_def TOOLS_def)

section \<open>Quoting for display\<close>

text \<open>On a token without a single quote the code quotes as the specification says.\<close>

lemma replace_quotes_none: "squote \<notin> set arg \<Longrightarrow> replace_quotes arg r = arg"
  by (induction arg) (auto simp: replace_quotes_def)

lemma quoteArg_without_quote: "squote \<notin> set arg \<Longrightarrow> quoteArg arg = spec_quoteArg arg"
proof -
  assume "squote \<notin> set arg"
  then have "replace_quotes arg r = arg" for r
    by (rule replace_quotes_none)
  then show ?thesis
    by (simp add: quoteArg_def spec_quoteArg_def SAFE_CHARS_test_def)
qed

text \<open>
  Claim C3 (\<open>formatShellCommand\<close> replaces every single quote inside a quoted token by
  the four characters quote, backslash, quote, quote): the code replaces it by three
  quotes, the backslash of the source literal being an escape of JavaScript. For the
  token \<open>mix'ed\<close> the code puts three quotes between \<open>mix\<close> and \<open>ed\<close>, where the
  specification puts quote, backslash, quote, quote.
\<close>

theorem formatShellCommand_quote_not_escaped:
  "formatShellCommand ''codex'' [''mix'ed'']
     = ''codex '' @ [squote] @ ''mix'' @ [squote, squote, squote] @ ''ed'' @ [squote]
   \<and> spec_formatShellCommand ''codex'' [''mix'ed'']
     = ''codex '' @ [squote] @ ''mix'' @ [squote, backslash, squote, squote] @ ''ed'' @ [squote]"
  by (simp add: formatShellCommand_def spec_formatShellCommand_def quoteArg_def
      spec_quoteArg_def SAFE_CHARS_test_def safe_char_def replace_quotes_def squote_def
      backslash_def)

section \<open>Pass-through arguments and the fast-mode flag\<close>

lemma indexOf_absent: "x \<notin> set xs \<Longrightarrow> indexOf xs x = -1"
  by (induction xs) auto

lemma indexOf_first: "x \<notin> set pre \<Longrightarrow> indexOf (pre @ x # post) x = int (length pre)"
  by (induction pre) (auto simp: Let_def)

lemma slice_after: "slice (pre @ x # post) (int (length pre) + 1) = post"
proof -
  have "nat (int (length pre) + 1) = Suc (length pre)"
    by simp
  then show ?thesis
    by (simp add: slice_def Let_def)
qed

text \<open>
  Claim C7: when no \<open>--\<close> token occurs in the argument list, \<open>passthroughArgs\<close> returns
  the empty list; otherwise it returns exactly the tokens after the first \<open>--\<close>, in
  order, later \<open>--\<close> tokens included.
\<close>

theorem passthroughArgs_suffix:
  "(''--'' \<notin> set argv \<longrightarrow> passthroughArgs argv = []) \<and>
   (\<forall>pre post. argv = pre @ ''--'' # post \<and> ''--'' \<notin> set pre
      \<longrightarrow> passthroughArgs argv = post)"
  by (auto simp: passthroughArgs_def indexOf_absent indexOf_first slice_after Let_def)

theorem passthroughArgs_suffix_witness:
  "passthroughArgs [''node'', ''ai'', ''use'', ''codex''] = [] \<and>
   passthroughArgs [''use'', ''codex'', ''--'', ''--flag'', ''--'', ''literal'']
     = [''--flag'', ''--'', ''literal'']"
proof -
  have "passthroughArgs [''node'', ''ai'', ''use'', ''codex''] = []"
    using passthroughArgs_suffix [of "[''node'', ''ai'', ''use'', ''codex'']"] by simp
  moreover have "passthroughArgs ([''use'', ''codex''] @ ''--'' # [''--flag'', ''--'', ''literal''])
      = [''--flag'', ''--'', ''literal'']"
    using passthroughArgs_suffix [of "[''use'', ''codex''] @ ''--'' # [''--flag'', ''--'', ''literal'']"]
    by (elim conjE allE [of _ "[''use'', ''codex'']"] allE [of _ "[''--flag'', ''--'', ''literal'']"]) simp
  ultimately show ?thesis by simp
qed

text \<open>
  Claim C9: \<open>selectYoloFlag\<close> (the specification's \<open>selectFastModeFlag\<close>) returns the
  first entry of the tool's flag list, and nothing when the list is empty or absent.
\<close>

theorem selectYoloFlag_first:
  "(yoloFlags tool = None \<longrightarrow> selectYoloFlag tool = None) \<and>
   (yoloFlags tool = Some [] \<longrightarrow> selectYoloFlag tool = None) \<and>
   (\<forall>f fs. yoloFlags tool = Some (f # fs) \<longrightarrow> selectYoloFlag tool = Some f)"
  by (simp add: selectYoloFlag_def)

theorem selectYoloFlag_first_witness:
  "selectYoloFlag bare_tool = None \<and> selectYoloFlag wsl_tool = None \<and>
   selectYoloFlag codex = Some ''--yolo''"
  using selectYoloFlag_first [of bare_tool] selectYoloFlag_first [of wsl_tool]
    selectYoloFlag_first [of codex]
  by (simp add: bare_tool_def wsl_tool_def codex_def)

section \<open>Installer choices\<close>

lemma isWSL_linux_host: "\<not> isWSL linux_host"
  by code_simp

lemma isWSL_wsl_host: "isWSL wsl_host"
  by (simp add: isWSL_def wsl_host_def linux_host_def mac_host_def)

lemma colon_not_cancel: "CHR '':'' \<in> set (name c) \<Longrightarrow> c \<noteq> CANCEL_CHOICE"
  by (auto simp: CANCEL_CHOICE_def)

lemma cancel_not_in_choices:
  "CANCEL_CHOICE \<notin> set (map (\<lambda>i. \<lparr>name = label i @ '': '' @ cmd i, value' = cmd i\<rparr>) xs)"
proof (induction xs)
  case Nil
  show ?case by simp
next
  case (Cons a xs)
  have "\<lparr>name = label a @ '': '' @ cmd a, value' = cmd a\<rparr> \<noteq> CANCEL_CHOICE"
    by (rule colon_not_cancel) simp
  with Cons show ?case
    by auto
qed

text \<open>
  Claim C6, as stated: \<open>getInstallerChoices\<close> returns the installers whose platform
  set is absent, empty or contains the platform, each as a labelled choice, and then the
  Cancel entry. It fails on a WSL host: an installer for \<open>wsl\<close> alone is offered there
  for the platform \<open>linux\<close>, which its platform set does not contain.
\<close>

theorem getInstallerChoices_wsl_counterexample:
  "getInstallerChoices wsl_host wsl_tool ''linux''
     = [\<lparr>name = ''apt: apt install example'', value' = ''apt install example''\<rparr>,
        CANCEL_CHOICE]
   \<and> spec_getInstallerChoices wsl_tool ''linux'' = [CANCEL_CHOICE]"
  by (simp add: getInstallerChoices_def spec_getInstallerChoices_def isInstallerSupported_def
      isWSL_wsl_host wsl_tool_def)

text \<open>
  Claim C6, amended. On a host that is not under WSL, \<open>getInstallerChoices\<close> returns
  the installers whose platform set is absent, empty or contains the platform; on a WSL
  host asked for the platform \<open>linux\<close>, those whose platform set is absent, empty or
  contains \<open>wsl\<close> or \<open>linux\<close>. In both cases the order of the catalog is kept, each
  installer becomes the choice labelled \<open>label: cmd\<close> with the command as its value,
  and on every host and platform the result ends with the Cancel entry, which occurs
  nowhere before the end and is the whole result when the tool has no installers.
\<close>

theorem getInstallerChoices_filter:
  "(\<not> isWSL h \<longrightarrow>
      getInstallerChoices h tool platform = spec_getInstallerChoices tool platform) \<and>
   (isWSL h \<longrightarrow>
      getInstallerChoices h tool ''linux'' =
        map (\<lambda>i. \<lparr>name = label i @ '': '' @ cmd i, value' = cmd i\<rparr>)
          (filter (\<lambda>i. case platforms i of
                          None \<Rightarrow> True
                        | Some ps \<Rightarrow> ps = [] \<or> ''wsl'' \<in> set ps \<or> ''linux'' \<in> set ps)
             (installers tool))
        @ [CANCEL_CHOICE]) \<and>
   (\<exists>cs. getInstallerChoices h tool platform = cs @ [CANCEL_CHOICE] \<and>
      CANCEL_CHOICE \<notin> set cs) \<and>
   (installers tool = [] \<longrightarrow> getInstallerChoices h tool platform = [CANCEL_CHOICE])"
proof (intro conjI impI)
  assume "\<not> isWSL h"
  then have "isInstallerSupported h i platform =
      (case platforms i of None \<Rightarrow> True | Some ps \<Rightarrow> ps = [] \<or> platform \<in> set ps)" for i
    by (auto simp: isInstallerSupported_def split: option.splits)
  then show "getInstallerChoices h tool platform = spec_getInstallerChoices tool platform"
    by (simp add: getInstallerChoices_def spec_getInstallerChoices_def)
next
  assume "isWSL h"
  then have "isInstallerSupported h i ''linux'' =
      (case platforms i of
         None \<Rightarrow> True
       | Some ps \<Rightarrow> ps = [] \<or> ''wsl'' \<in> set ps \<or> ''linux'' \<in> set ps)" for i
    by (auto simp: isInstallerSupported_def split: option.splits)
  then show "getInstallerChoices h tool ''linux'' =
      map (\<lambda>i. \<lparr>name = label i @ '': '' @ cmd i, value' = cmd i\<rparr>)
        (filter (\<lambda>i. case platforms i of
                        None \<Rightarrow> True
                      | Some ps \<Rightarrow> ps = [] \<or> ''wsl'' \<in> set ps \<or> ''linux'' \<in> set ps)
           (installers tool))
      @ [CANCEL_CHOICE]"
    by (simp add: getInstallerChoices_def)
next
  show "\<exists>cs. getInstallerChoices h tool platform = cs @ [CANCEL_CHOICE] \<and>
      CANCEL_CHOICE \<notin> set cs"
  proof (intro exI conjI)
    show "getInstallerChoices h tool platform =
        map (\<lambda>i. \<lparr>name = label i @ '': '' @ cmd i, value' = cmd i\<rparr>)
          (filter (\<lambda>i. isInstallerSupported h i platform) (installers tool))
        @ [CANCEL_CHOICE]"
      by (simp add: getInstallerChoices_def)
    show "CANCEL_CHOICE \<notin> set (map (\<lambda>i. \<lparr>name = label i @ '': '' @ cmd i, value' = cmd i\<rparr>)
        (filter (\<lambda>i. isInstallerSupported h i platform) (installers tool)))"
      by (rule cancel_not_in_choices)
  qed
next
  assume "installers tool = []"
  then show "getInstallerChoices h tool platform = [CANCEL_CHOICE]"
    by (simp add: getInstallerChoices_def)
qed

theorem getInstallerChoices_filter_witness:
  "getInstallerChoices linux_host codex ''linux''
     = [\<lparr>name = ''npm: npm install -g @openai/codex'', value' = ''npm install -g @openai/codex''\<rparr>,
        CANCEL_CHOICE] \<and>
   getInstallerChoices wsl_host wsl_tool ''linux''
     = [\<lparr>name = ''apt: apt install example'', value' = ''apt install example''\<rparr>,
        CANCEL_CHOICE] \<and>
   getInstallerChoices mac_host bare_tool ''darwin'' = [CANCEL_CHOICE]"
  using getInstallerChoices_filter [of linux_host codex "''linux''"]
    getInstallerChoices_filter [of wsl_host wsl_tool "''linux''"]
    getInstallerChoices_filter [of mac_host bare_tool "''darwin''"]
  by (simp add: isWSL_linux_host isWSL_wsl_host spec_getInstallerChoices_def codex_def
      wsl_tool_def bare_tool_def)

text \<open>
  Claim C8 (two calls of \<open>getInstallerChoices\<close> with the same tool and the same explicit
  platform return the same result on every host): the code asks the host whether it runs
  under WSL, inside the filter, and then leaves the platform it was given aside. For the
  Codex entry and the platform \<open>darwin\<close> it offers the brew installer on a plain Linux
  host and drops it on a WSL host.
\<close>

theorem getInstallerChoices_depends_on_host:
  "getInstallerChoices linux_host codex ''darwin''
     = [\<lparr>name = ''npm: npm install -g @openai/codex'', value' = ''npm install -g @openai/codex''\<rparr>,
        \<lparr>name = ''brew: brew install codex'', value' = ''brew install codex''\<rparr>,
        CANCEL_CHOICE]
   \<and> getInstallerChoices wsl_host codex ''darwin''
     = [\<lparr>name = ''npm: npm install -g @openai/codex'', value' = ''npm install -g @openai/codex''\<rparr>,
        CANCEL_CHOICE]"
  by (simp add: getInstallerChoices_def isInstallerSupported_def codex_def isWSL_linux_host
      isWSL_wsl_host)

section \<open>Loading the project configuration\<close>

lemma normalizeToolKey_falsy [simp]:
  "normalizeToolKey Undefined = None" "normalizeToolKey Null = None"
  "normalizeToolKey (Str []) = None"
  by (simp_all add: normalizeToolKey_def)

lemma normalizeToolKey_truthy:
  "normalizeToolKey v = Some k \<Longrightarrow> truthy (Str k)"
  by (cases v) (auto simp: normalizeToolKey_def toLowerCase_def Let_def split: if_splits)

lemma strings_of_items: "list_all is_string items \<Longrightarrow> map JString (map string_of items) = items"
proof (induction items)
  case Nil
  show ?case by simp
next
  case (Cons v vs)
  then show ?case by (cases v) simp_all
qed

lemma ensureStringArray_strings [simp]:
  "ensureStringArray (Some (JArray (map JString ss))) = Some ss"
  by (induction ss) (simp_all split: if_splits)

lemma ensureStringArray_Some:
  "ensureStringArray f = Some ss \<Longrightarrow> f = Some (JArray (map JString ss))"
proof (induction f rule: ensureStringArray.induct)
  case (1 items)
  then show ?case
    using strings_of_items [of items] by (auto split: if_splits)
qed simp_all

text \<open>Calls of a logger that records and returns.\<close>

lemma warn_sink [simp]: "warn (sink messages) m = (None, sink (messages @ [m]))"
  by (simp add: warn_def sink_def)

lemma opt_warn_sink [simp]:
  "opt_warn (map_option sink messages) m
     = (None, map_option sink (map_option (\<lambda>ms. ms @ [m]) messages))"
  by (cases messages) simp_all

lemma returning_logger_is_sink:
  assumes "\<forall>history message. fails l history message = None"
  shows "l = sink (received l)"
proof -
  from assms have "fails l = (\<lambda>history message. None)"
    by (simp add: fun_eq_iff)
  then show ?thesis
    by (cases l) (simp add: sink_def)
qed

lemma returning_logger_cases:
  assumes "\<forall>l history message. logger = Some l \<longrightarrow> fails l history message = None"
  obtains messages where "logger = map_option sink messages"
proof (cases logger)
  case None
  then have "logger = map_option sink None" by simp
  then show ?thesis by (rule that)
next
  case (Some l)
  with assms have "l = sink (received l)"
    by (simp add: returning_logger_is_sink)
  with Some have "logger = map_option sink (Some (received l))" by simp
  then show ?thesis by (rule that)
qed

lemma loadConfig_document:
  assumes "existsSync h (path_join h cwd CONFIG_FILENAME)"
    and "readFileSync h (path_join h cwd CONFIG_FILENAME) = Inr raw"
    and "JSON_parse h raw = Inr doc"
    and "getProperty doc ''defaultTool'' = Inr tool_field"
    and "getProperty doc ''defaultFlags'' = Inr flags_field"
  shows "loadConfig h cwd (map_option sink messages) = Inr
    (\<lparr>defaultTool = (case tool_field of Some (JString s) \<Rightarrow> normalizeToolKey (Str s) | _ \<Rightarrow> None),
      defaultFlags = ensureStringArray flags_field\<rparr>,
     map_option sink
     (let messages1 =
        (case tool_field of
           Some (JString s) \<Rightarrow>
             if s \<noteq> [] \<and> normalizeToolKey (Str s) = None
             then map_option (\<lambda>ms. ms @ [''Ignoring unknown defaultTool: '' @ s]) messages
             else messages
         | _ \<Rightarrow> messages)
      in if flags_field \<noteq> None \<and> ensureStringArray flags_field = None
         then map_option
           (\<lambda>ms. ms @ [''Ignoring defaultFlags because it is not an array of strings.''])
           messages1
         else messages1))"
proof (cases "\<exists>s. tool_field = Some (JString s)")
  case True
  then obtain s where s: "tool_field = Some (JString s)" by blast
  show ?thesis
  proof (cases "normalizeToolKey (Str s)")
    case None
    then show ?thesis
      using assms s
      by (auto simp: loadConfig_def loadConfig_try_def empty_config_def Let_def)
  next
    case (Some k)
    then have "truthy (Str k)" by (rule normalizeToolKey_truthy)
    with Some show ?thesis
      using assms s
      by (auto simp: loadConfig_def loadConfig_try_def empty_config_def Let_def)
  qed
next
  case False
  then have "(case tool_field of Some (JString s) \<Rightarrow> Some s | _ \<Rightarrow> None) = None"
    by (auto split: option.splits json.splits)
  moreover from False
  have "(case tool_field of Some (JString s) \<Rightarrow> normalizeToolKey (Str s) | _ \<Rightarrow> None) = None"
    by (auto split: option.splits json.splits)
  moreover from False have "(case tool_field of
         Some (JString s) \<Rightarrow>
           if s \<noteq> [] \<and> normalizeToolKey (Str s) = None
           then map_option (\<lambda>ms. ms @ [''Ignoring unknown defaultTool: '' @ s]) messages
           else messages
       | _ \<Rightarrow> messages) = messages"
    by (auto split: option.splits json.splits)
  ultimately show ?thesis
    using assms
    by (auto simp: loadConfig_def loadConfig_try_def empty_config_def Let_def)
qed

lemma loadConfig_failure:
  assumes "existsSync h (path_join h cwd CONFIG_FILENAME)"
    and "loadConfig_try h (path_join h cwd CONFIG_FILENAME) logger = Inl (message, logger')"
  shows "loadConfig h cwd logger =
    (case fst (opt_warn logger' (''Failed to load .ai-switch.json: '' @ message)) of
       Some thrown \<Rightarrow> Inl thrown
     | None \<Rightarrow>
         Inr (empty_config,
           snd (opt_warn logger' (''Failed to load .ai-switch.json: '' @ message))))"
  using assms by (simp add: loadConfig_def CONFIG_FILENAME_def Let_def split: option.splits)

lemma config_host_simps [simp]:
  "path_join (config_host outcome) = (\<lambda>dir file. dir @ ''/'' @ file)"
  "existsSync (config_host outcome) ''/proj/.ai-switch.json''"
  "readFileSync (config_host outcome) ''/proj/.ai-switch.json'' = Inr ''(text of the file)''"
  "JSON_parse (config_host outcome) ''(text of the file)'' = outcome"
  by (simp_all add: config_host_def mac_host_def)

lemma config_host_file:
  "existsSync (config_host outcome) (path_join (config_host outcome) ''/proj'' CONFIG_FILENAME)"
  "readFileSync (config_host outcome) (path_join (config_host outcome) ''/proj'' CONFIG_FILENAME)
     = Inr ''(text of the file)''"
  by (simp_all add: CONFIG_FILENAME_def)

lemma loadConfig_try_sink:
  assumes "loadConfig_try h p (map_option sink messages) = Inl (message, logger')"
  shows "\<exists>messages'. logger' = map_option sink messages'"
  using assms
  by (auto simp: loadConfig_try_def Let_def split: sum.splits option.splits if_splits)

text \<open>
  Claim C4, as stated: for every project directory and optional logger, \<open>loadConfig\<close>
  never raises to its caller. It fails for a logger whose \<open>warn\<close> throws: when the file
  cannot be parsed, the \<open>catch\<close> clause calls \<open>warn\<close> outside any guard, and the
  error that call throws reaches the caller.
\<close>

theorem loadConfig_throwing_logger_counterexample:
  "loadConfig (config_host (Inl ''Unexpected token i in JSON at position 1'')) ''/proj''
     (Some closed_logger)
   = Inl ''logger is closed''"
  by (simp add: loadConfig_def loadConfig_try_def CONFIG_FILENAME_def warn_def
      closed_logger_def)

text \<open>
  Claim C4, amended. When the config file is absent, \<open>loadConfig\<close> returns the empty
  config and calls no logger, whatever the logger is. For every project directory and
  every optional logger whose \<open>warn\<close> returns normally, \<open>loadConfig\<close> never raises to
  its caller, and when reading or parsing the file fails it returns the empty config
  after one call of \<open>logger.warn\<close> (if a logger was passed) whose message is
  \<open>Failed to load .ai-switch.json: \<close> followed by the text of the error.
\<close>

theorem loadConfig_never_raises:
  "(\<not> existsSync h (path_join h cwd CONFIG_FILENAME)
      \<longrightarrow> loadConfig h cwd logger = Inr (empty_config, logger)) \<and>
   ((\<forall>l history message. logger = Some l \<longrightarrow> fails l history message = None) \<longrightarrow>
      (\<exists>cfg logger'. loadConfig h cwd logger = Inr (cfg, logger')) \<and>
      (\<forall>message. existsSync h (path_join h cwd CONFIG_FILENAME) \<and>
           readFileSync h (path_join h cwd CONFIG_FILENAME) = Inl message
         \<longrightarrow> loadConfig h cwd logger
             = Inr (empty_config,
                 snd (opt_warn logger (''Failed to load .ai-switch.json: '' @ message)))) \<and>
      (\<forall>raw message. existsSync h (path_join h cwd CONFIG_FILENAME) \<and>
           readFileSync h (path_join h cwd CONFIG_FILENAME) = Inr raw \<and>
           JSON_parse h raw = Inl message
         \<longrightarrow> loadConfig h cwd logger
             = Inr (empty_config,
                 snd (opt_warn logger (''Failed to load .ai-switch.json: '' @ message)))))"
proof (intro conjI impI allI)
  assume "\<not> existsSync h (path_join h cwd CONFIG_FILENAME)"
  then show "loadConfig h cwd logger = Inr (empty_config, logger)"
    by (simp add: loadConfig_def)
next
  assume "\<forall>l history message. logger = Some l \<longrightarrow> fails l history message = None"
  then obtain messages where logger: "logger = map_option sink messages"
    by (rule returning_logger_cases)
  show "\<exists>cfg logger'. loadConfig h cwd logger = Inr (cfg, logger')"
  proof (cases "existsSync h (path_join h cwd CONFIG_FILENAME)")
    case False
    then show ?thesis by (simp add: loadConfig_def)
  next
    case True
    show ?thesis
    proof (cases "loadConfig_try h (path_join h cwd CONFIG_FILENAME) logger")
      case (Inr r)
      with True show ?thesis
        by (cases r) (simp add: loadConfig_def)
    next
      case (Inl e)
      obtain message logger' where e: "e = (message, logger')"
        by (cases e)
      with Inl logger obtain messages' where "logger' = map_option sink messages'"
        using loadConfig_try_sink [of h "path_join h cwd CONFIG_FILENAME" messages message logger']
        by auto
      with True Inl e show ?thesis
        by (simp add: loadConfig_failure)
    qed
  qed
next
  fix message
  assume "\<forall>l history message. logger = Some l \<longrightarrow> fails l history message = None"
  then obtain messages where logger: "logger = map_option sink messages"
    by (rule returning_logger_cases)
  assume a: "existsSync h (path_join h cwd CONFIG_FILENAME) \<and>
    readFileSync h (path_join h cwd CONFIG_FILENAME) = Inl message"
  then have "loadConfig_try h (path_join h cwd CONFIG_FILENAME) logger = Inl (message, logger)"
    by (simp add: loadConfig_try_def)
  with a logger show "loadConfig h cwd logger
      = Inr (empty_config, snd (opt_warn logger (''Failed to load .ai-switch.json: '' @ message)))"
    by (simp add: loadConfig_failure)
next
  fix raw message
  assume "\<forall>l history message. logger = Some l \<longrightarrow> fails l history message = None"
  then obtain messages where logger: "logger = map_option sink messages"
    by (rule returning_logger_cases)
  assume a: "existsSync h (path_join h cwd CONFIG_FILENAME) \<and>
    readFileSync h (path_join h cwd CONFIG_FILENAME) = Inr raw \<and>
    JSON_parse h raw = Inl message"
  then have "loadConfig_try h (path_join h cwd CONFIG_FILENAME) logger = Inl (message, logger)"
    by (simp add: loadConfig_try_def)
  with a logger show "loadConfig h cwd logger
      = Inr (empty_config, snd (opt_warn logger (''Failed to load .ai-switch.json: '' @ message)))"
    by (simp add: loadConfig_failure)
qed

theorem loadConfig_never_raises_witness:
  "loadConfig mac_host ''/proj'' (Some closed_logger) = Inr (empty_config, Some closed_logger) \<and>
   loadConfig unreadable_host ''/proj'' (Some (sink []))
     = Inr (empty_config,
         Some (sink [''Failed to load .ai-switch.json: EACCES: permission denied, open ''
                     @ [squote] @ ''/proj/.ai-switch.json'' @ [squote]])) \<and>
   loadConfig (config_host (Inl ''Unexpected token i in JSON at position 1'')) ''/proj''
     (Some (sink []))
     = Inr (empty_config,
         Some (sink [''Failed to load .ai-switch.json: Unexpected token i in JSON at position 1''])) \<and>
   loadConfig (config_host (Inl ''Unexpected token i in JSON at position 1'')) ''/proj'' None
     = Inr (empty_config, None)"
proof (intro conjI)
  show "loadConfig mac_host ''/proj'' (Some closed_logger) = Inr (empty_config, Some closed_logger)"
    using loadConfig_never_raises [of mac_host "''/proj''" "Some closed_logger"]
    by (simp add: mac_host_def)
  have returns: "\<forall>l history message. Some (sink []) = Some l \<longrightarrow> fails l history message = None"
    by (simp add: sink_def)
  show "loadConfig unreadable_host ''/proj'' (Some (sink []))
     = Inr (empty_config,
         Some (sink [''Failed to load .ai-switch.json: EACCES: permission denied, open ''
                     @ [squote] @ ''/proj/.ai-switch.json'' @ [squote]]))"
    using loadConfig_never_raises [of unreadable_host "''/proj''" "Some (sink [])"] returns
    by (simp add: unreadable_host_def mac_host_def CONFIG_FILENAME_def)
  show "loadConfig (config_host (Inl ''Unexpected token i in JSON at position 1'')) ''/proj''
     (Some (sink []))
     = Inr (empty_config,
         Some (sink [''Failed to load .ai-switch.json: Unexpected token i in JSON at position 1'']))"
    using loadConfig_never_raises
      [of "config_host (Inl ''Unexpected token i in JSON at position 1'')" "''/proj''" "Some (sink [])"]
      returns
    by (simp add: CONFIG_FILENAME_def)
  show "loadConfig (config_host (Inl ''Unexpected token i in JSON at position 1'')) ''/proj'' None
     = Inr (empty_config, None)"
    using loadConfig_never_raises
      [of "config_host (Inl ''Unexpected token i in JSON at position 1'')" "''/proj''" None]
    by (simp add: CONFIG_FILENAME_def)
qed

text \<open>
  Claim C5, as stated: a string \<open>defaultTool\<close> that fails normalization is omitted
  with a warning. It fails for the empty string, which fails normalization and is omitted
  without any warning: the warning is guarded by the truthiness of the string.
\<close>

theorem loadConfig_empty_defaultTool_counterexample:
  "normalizeToolKey (Str []) = None \<and>
   loadConfig (config_host (Inr (JObject [(''defaultTool'', JString [])]))) ''/proj''
     (Some (sink []))
     = Inr (empty_config, Some (sink []))"
  by (simp add: loadConfig_def loadConfig_try_def CONFIG_FILENAME_def empty_config_def)

text \<open>
  Claim C5, amended. For every parsed document whose fields can be read (any value but
  \<open>null\<close>), \<open>loadConfig\<close> treats the two fields apart: the config and the warnings are
  made of a part that depends on \<open>defaultTool\<close> alone and a part that depends on
  \<open>defaultFlags\<close> alone. A non-empty string \<open>defaultTool\<close> that fails normalization is
  omitted with the warning \<open>Ignoring unknown defaultTool: \<close> followed by the value, an
  empty one is omitted without a warning, and one that normalizes is set. A
  \<open>defaultFlags\<close> that is present and is not an array of strings is omitted with the
  warning \<open>Ignoring defaultFlags because it is not an array of strings.\<close>, and an array
  of strings is copied as it is. The warnings are those received by a logger that records
  them, as the mock of the tests does; without a logger the config is the same.
\<close>

theorem loadConfig_fields_independent:
  assumes "existsSync h (path_join h cwd CONFIG_FILENAME)"
    and "readFileSync h (path_join h cwd CONFIG_FILENAME) = Inr raw"
    and "JSON_parse h raw = Inr doc"
    and "getProperty doc ''defaultTool'' = Inr tool_field"
    and "getProperty doc ''defaultFlags'' = Inr flags_field"
  shows "\<exists>cfg tw fw.
    loadConfig h cwd (Some (sink logger)) = Inr (cfg, Some (sink (logger @ tw @ fw))) \<and>
    loadConfig h cwd None = Inr (cfg, None) \<and>
    (\<forall>s. tool_field = Some (JString s) \<and> s \<noteq> [] \<and> normalizeToolKey (Str s) = None
       \<longrightarrow> defaultTool cfg = None \<and> tw = [''Ignoring unknown defaultTool: '' @ s]) \<and>
    (\<forall>s k. tool_field = Some (JString s) \<and> normalizeToolKey (Str s) = Some k
       \<longrightarrow> defaultTool cfg = Some k \<and> tw = []) \<and>
    (tool_field = Some (JString []) \<longrightarrow> defaultTool cfg = None \<and> tw = []) \<and>
    (flags_field \<noteq> None \<and> (\<forall>ss. flags_field \<noteq> Some (JArray (map JString ss)))
       \<longrightarrow> defaultFlags cfg = None \<and>
           fw = [''Ignoring defaultFlags because it is not an array of strings.'']) \<and>
    (\<forall>ss. flags_field = Some (JArray (map JString ss))
       \<longrightarrow> defaultFlags cfg = Some ss \<and> fw = [])"
proof -
  define tw where "tw =
    (case tool_field of
       Some (JString s) \<Rightarrow>
         if s \<noteq> [] \<and> normalizeToolKey (Str s) = None
         then [''Ignoring unknown defaultTool: '' @ s] else []
     | _ \<Rightarrow> [])"
  define fw where "fw =
    (if flags_field \<noteq> None \<and> ensureStringArray flags_field = None
     then [''Ignoring defaultFlags because it is not an array of strings.''] else [])"
  define cfg where "cfg =
    \<lparr>defaultTool = (case tool_field of Some (JString s) \<Rightarrow> normalizeToolKey (Str s) | _ \<Rightarrow> None),
     defaultFlags = ensureStringArray flags_field\<rparr>"
  have some: "loadConfig h cwd (Some (sink logger)) = Inr (cfg, Some (sink (logger @ tw @ fw)))"
    using loadConfig_document [OF assms, of "Some logger"]
    unfolding cfg_def tw_def fw_def
    by (auto simp: Let_def split: option.splits json.splits)
  have none: "loadConfig h cwd None = Inr (cfg, None)"
    using loadConfig_document [OF assms, of None]
    unfolding cfg_def
    by (auto simp: Let_def split: option.splits json.splits)
  have flags_bad: "ensureStringArray flags_field = None"
    if "\<forall>ss. flags_field \<noteq> Some (JArray (map JString ss))"
    using that ensureStringArray_Some [of flags_field] by (cases "ensureStringArray flags_field") auto
  show ?thesis
  proof (intro exI conjI allI impI)
    show "loadConfig h cwd (Some (sink logger)) = Inr (cfg, Some (sink (logger @ tw @ fw)))"
      by (rule some)
    show "loadConfig h cwd None = Inr (cfg, None)" by (rule none)
  next
    fix s assume "tool_field = Some (JString s) \<and> s \<noteq> [] \<and> normalizeToolKey (Str s) = None"
    then show "defaultTool cfg = None" "tw = [''Ignoring unknown defaultTool: '' @ s]"
      by (simp_all add: cfg_def tw_def)
  next
    fix s k assume "tool_field = Some (JString s) \<and> normalizeToolKey (Str s) = Some k"
    then show "defaultTool cfg = Some k" "tw = []"
      by (simp_all add: cfg_def tw_def)
  next
    assume "tool_field = Some (JString [])"
    then show "defaultTool cfg = None" "tw = []"
      by (simp_all add: cfg_def tw_def)
  next
    assume "flags_field \<noteq> None \<and> (\<forall>ss. flags_field \<noteq> Some (JArray (map JString ss)))"
    then show "defaultFlags cfg = None"
      "fw = [''Ignoring defaultFlags because it is not an array of strings.'']"
      using flags_bad by (simp_all add: cfg_def fw_def)
  next
    fix ss assume "flags_field = Some (JArray (map JString ss))"
    then show "defaultFlags cfg = Some ss" "fw = []"
      by (simp_all add: cfg_def fw_def del: ensureStringArray.simps)
  qed
qed

theorem loadConfig_fields_independent_witness:
  "loadConfig
     (config_host (Inr (JObject [(''defaultTool'', JString ''cursor''),
        (''defaultFlags'', JArray [JString ''--model'', JString ''claude-3''])])))
     ''/proj'' (Some (sink []))
   = Inr (\<lparr>defaultTool = None, defaultFlags = Some [''--model'', ''claude-3'']\<rparr>,
       Some (sink [''Ignoring unknown defaultTool: cursor''])) \<and>
   loadConfig
     (config_host (Inr (JObject [(''defaultTool'', JString ''CLAUDE''),
        (''defaultFlags'', JArray [JString ''--model'', JNumber 123])])))
     ''/proj'' (Some (sink []))
   = Inr (\<lparr>defaultTool = Some ''claude'', defaultFlags = None\<rparr>,
       Some (sink [''Ignoring defaultFlags because it is not an array of strings.'']))"
proof (intro conjI)
  let ?flags = "JArray [JString ''--model'', JString ''claude-3'']"
  let ?doc = "JObject [(''defaultTool'', JString ''cursor''), (''defaultFlags'', ?flags)]"
  have tool: "getProperty ?doc ''defaultTool'' = Inr (Some (JString ''cursor''))"
    and flags: "getProperty ?doc ''defaultFlags'' = Inr (Some ?flags)"
    by simp_all
  have cursor: "normalizeToolKey (Str ''cursor'') = None"
    by (simp add: normalizeToolKey_def toLowerCase_def toLowerCase_char_def js_in_def
        Object_prototype_properties_def TOOLS_def)
  have strings: "Some ?flags = Some (JArray (map JString [''--model'', ''claude-3'']))"
    by simp
  from loadConfig_fields_independent
    [OF config_host_file config_host_simps(4) tool flags, of "[]"]
  show "loadConfig (config_host (Inr ?doc)) ''/proj'' (Some (sink []))
    = Inr (\<lparr>defaultTool = None, defaultFlags = Some [''--model'', ''claude-3'']\<rparr>,
        Some (sink [''Ignoring unknown defaultTool: cursor'']))"
  proof (elim exE conjE)
    fix cfg tw fw
    assume r: "loadConfig (config_host (Inr ?doc)) ''/proj'' (Some (sink []))
      = Inr (cfg, Some (sink ([] @ tw @ fw)))"
    assume t: "\<forall>s. Some (JString ''cursor'') = Some (JString s) \<and> s \<noteq> [] \<and>
        normalizeToolKey (Str s) = None
      \<longrightarrow> defaultTool cfg = None \<and> tw = [''Ignoring unknown defaultTool: '' @ s]"
    assume f: "\<forall>ss. Some ?flags = Some (JArray (map JString ss))
      \<longrightarrow> defaultFlags cfg = Some ss \<and> fw = []"
    from t [rule_format, of "''cursor''"] cursor
    have "defaultTool cfg = None" "tw = [''Ignoring unknown defaultTool: cursor'']"
      by simp_all
    moreover from f [rule_format, OF strings]
    have "defaultFlags cfg = Some [''--model'', ''claude-3'']" "fw = []"
      by simp_all
    ultimately show ?thesis
      using r by simp
  qed
next
  let ?flags = "JArray [JString ''--model'', JNumber 123]"
  let ?doc = "JObject [(''defaultTool'', JString ''CLAUDE''), (''defaultFlags'', ?flags)]"
  have tool: "getProperty ?doc ''defaultTool'' = Inr (Some (JString ''CLAUDE''))"
    and flags: "getProperty ?doc ''defaultFlags'' = Inr (Some ?flags)"
    by simp_all
  have claude: "normalizeToolKey (Str ''CLAUDE'') = Some ''claude''"
    by (simp add: normalizeToolKey_def toLowerCase_def toLowerCase_char_def js_in_def TOOLS_def)
  have bad: "Some ?flags \<noteq> None \<and> (\<forall>ss. Some ?flags \<noteq> Some (JArray (map JString ss)))"
  proof (intro conjI allI notI)
    fix ss
    assume "Some ?flags = Some (JArray (map JString ss))"
    then have "map JString ss = [JString ''--model'', JNumber 123]"
      by simp
    then have "JNumber 123 \<in> set (map JString ss)"
      by simp
    then show False
      by auto
  qed simp
  from loadConfig_fields_independent
    [OF config_host_file config_host_simps(4) tool flags, of "[]"]
  show "loadConfig (config_host (Inr ?doc)) ''/proj'' (Some (sink []))
    = Inr (\<lparr>defaultTool = Some ''claude'', defaultFlags = None\<rparr>,
        Some (sink [''Ignoring defaultFlags because it is not an array of strings.'']))"
  proof (elim exE conjE)
    fix cfg tw fw
    assume r: "loadConfig (config_host (Inr ?doc)) ''/proj'' (Some (sink []))
      = Inr (cfg, Some (sink ([] @ tw @ fw)))"
    assume t: "\<forall>s k. Some (JString ''CLAUDE'') = Some (JString s) \<and>
        normalizeToolKey (Str s) = Some k
      \<longrightarrow> defaultTool cfg = Some k \<and> tw = []"
    assume f: "Some ?flags \<noteq> None \<and> (\<forall>ss. Some ?flags \<noteq> Some (JArray (map JString ss)))
      \<longrightarrow> defaultFlags cfg = None \<and>
          fw = [''Ignoring defaultFlags because it is not an array of strings.'']"
    from t [rule_format, of "''CLAUDE''" "''claude''"] claude
    have "defaultTool cfg = Some ''claude''" "tw = []"
      by simp_all
    moreover from f [rule_format, OF bad]
    have "defaultFlags cfg = None"
      "fw = [''Ignoring defaultFlags because it is not an array of strings.'']"
      by simp_all
    ultimately show ?thesis
      using r by simp
  qed
qed

lemma map_of_without:
  "map_of (filter (\<lambda>p. fst p \<noteq> k) props) k' = (if k' = k then None else map_of props k')"
  by (induction props) auto

lemma loadConfig_try_no_tool:
  assumes "readFileSync h p = Inr raw"
    and "JSON_parse h raw = Inr doc"
    and "getProperty doc ''defaultTool'' = Inr tool_field"
    and "\<forall>s. tool_field \<noteq> Some (JString s)"
    and "getProperty doc ''defaultFlags'' = Inr flags_field"
  shows "loadConfig_try h p logger =
    (let flags = ensureStringArray flags_field in
       if flags \<noteq> None then Inr (empty_config\<lparr>defaultFlags := flags\<rparr>, logger)
       else if flags_field \<noteq> None
       then (let called =
                   opt_warn logger
                     ''Ignoring defaultFlags because it is not an array of strings.''
             in case fst called of
                  Some message \<Rightarrow> Inl (message, snd called)
                | None \<Rightarrow> Inr (empty_config, snd called))
       else Inr (empty_config, logger))"
proof -
  from assms(4) have "(case tool_field of Some (JString s) \<Rightarrow> Some s | _ \<Rightarrow> None) = None"
    by (auto split: option.splits json.splits)
  with assms(1,2,3,5) show ?thesis
    by (simp add: loadConfig_try_def Let_def)
qed

text \<open>
  Claim C10: when the \<open>defaultTool\<close> field of the document is present and is not a
  string, \<open>loadConfig\<close> leaves \<open>defaultTool\<close> out and warns of nothing for it. With a
  logger whose \<open>warn\<close> returns normally, or none, the only warning there can be is the
  one about \<open>defaultFlags\<close>; and with every logger, what \<open>loadConfig\<close> does is what it
  does for the same document without the \<open>defaultTool\<close> field.
\<close>

theorem loadConfig_nonstring_defaultTool_silent:
  assumes "existsSync h (path_join h cwd CONFIG_FILENAME)"
    and "readFileSync h (path_join h cwd CONFIG_FILENAME) = Inr raw"
    and "JSON_parse h raw = Inr (JObject props)"
    and "map_of props ''defaultTool'' = Some v"
    and "\<not> is_string v"
  shows "((\<forall>l history message. logger = Some l \<longrightarrow> fails l history message = None) \<longrightarrow>
      loadConfig h cwd logger = Inr
        (\<lparr>defaultTool = None, defaultFlags = ensureStringArray (map_of props ''defaultFlags'')\<rparr>,
         if map_of props ''defaultFlags'' \<noteq> None \<and>
            ensureStringArray (map_of props ''defaultFlags'') = None
         then snd (opt_warn logger
                ''Ignoring defaultFlags because it is not an array of strings.'')
         else logger))
    \<and> loadConfig h cwd logger =
      loadConfig
        (h\<lparr>JSON_parse := \<lambda>t. Inr (JObject (filter (\<lambda>p. fst p \<noteq> ''defaultTool'') props))\<rparr>)
        cwd logger"
proof (intro conjI impI)
  assume "\<forall>l history message. logger = Some l \<longrightarrow> fails l history message = None"
  then obtain messages where logger: "logger = map_option sink messages"
    by (rule returning_logger_cases)
  from assms(5) have v: "(case Some v of Some (JString s) \<Rightarrow> normalizeToolKey (Str s) | _ \<Rightarrow> None) = None"
    "\<And>ms. (case Some v of
           Some (JString s) \<Rightarrow>
             if s \<noteq> [] \<and> normalizeToolKey (Str s) = None
             then map_option (\<lambda>ms. ms @ [''Ignoring unknown defaultTool: '' @ s]) ms else ms
         | _ \<Rightarrow> ms) = ms"
    by (cases v; simp)+
  show "loadConfig h cwd logger = Inr
      (\<lparr>defaultTool = None, defaultFlags = ensureStringArray (map_of props ''defaultFlags'')\<rparr>,
       if map_of props ''defaultFlags'' \<noteq> None \<and>
          ensureStringArray (map_of props ''defaultFlags'') = None
       then snd (opt_warn logger ''Ignoring defaultFlags because it is not an array of strings.'')
       else logger)"
    using loadConfig_document [OF assms(1,2,3), of "Some v" "map_of props ''defaultFlags''" messages]
      assms(4) v logger by (simp add: Let_def)
next
  let ?h = "h\<lparr>JSON_parse := \<lambda>t. Inr (JObject (filter (\<lambda>p. fst p \<noteq> ''defaultTool'') props))\<rparr>"
  let ?p = "path_join h cwd CONFIG_FILENAME"
  from assms(5) have "\<forall>s. Some v \<noteq> Some (JString s)"
    by auto
  with assms(2,3,4)
  have "loadConfig_try h ?p logger = loadConfig_try ?h ?p logger"
    using loadConfig_try_no_tool [of h ?p raw "JObject props" "Some v" "map_of props ''defaultFlags''" logger]
      loadConfig_try_no_tool [of ?h ?p raw
        "JObject (filter (\<lambda>p. fst p \<noteq> ''defaultTool'') props)" None
        "map_of props ''defaultFlags''" logger]
    by (simp add: map_of_without)
  then show "loadConfig h cwd logger = loadConfig ?h cwd logger"
    by (simp add: loadConfig_def Let_def)
qed

theorem loadConfig_nonstring_defaultTool_silent_witness:
  "loadConfig
     (config_host (Inr (JObject [(''defaultTool'', JNumber 42),
        (''defaultFlags'', JArray [JString ''--fast''])])))
     ''/proj'' (Some (sink []))
   = Inr (\<lparr>defaultTool = None, defaultFlags = Some [''--fast'']\<rparr>, Some (sink []))"
proof -
  have "\<forall>l history message. Some (sink []) = Some l \<longrightarrow> fails l history message = None"
    by (simp add: sink_def)
  then show ?thesis
    using loadConfig_nonstring_defaultTool_silent
      [of "config_host (Inr (JObject [(''defaultTool'', JNumber 42),
              (''defaultFlags'', JArray [JString ''--fast''])]))"
          "''/proj''" "''(text of the file)''"
          "[(''defaultTool'', JNumber 42), (''defaultFlags'', JArray [JString ''--fast''])]"
          "JNumber 42" "Some (sink [])"]
    by (simp add: CONFIG_FILENAME_def)
qed

end
